theory Spec2Isabelle
  imports Main
begin

section \<open>C strings\<close>

text \<open>
  A C string is modelled by the list of its bytes before the terminating NUL; a pointer
  into it is an index. Reading the byte at the terminator gives NUL, which is what
  \<open>nth_c\<close> returns at the end of the list.
\<close>

definition NUL :: char where
  "NUL = CHR 0x00"

definition nth_c :: "string \<Rightarrow> nat \<Rightarrow> char" where
  "nth_c s i = (if i < length s then s ! i else NUL)"

text \<open>\<open>strchr\<close>: the index of the first occurrence of a byte, if any.\<close>

fun strchr :: "string \<Rightarrow> char \<Rightarrow> nat option" where
  "strchr [] c = None"
| "strchr (x # xs) c = (if x = c then Some 0 else map_option Suc (strchr xs c))"

text \<open>\<open>strrchr\<close>: the index of the last occurrence of a byte, if any.\<close>

fun strrchr :: "string \<Rightarrow> char \<Rightarrow> nat option" where
  "strrchr [] c = None"
| "strrchr (x # xs) c =
     (case strrchr xs c of
        Some i \<Rightarrow> Some (Suc i)
      | None \<Rightarrow> (if x = c then Some 0 else None))"

text \<open>\<open>strstr\<close>: the index of the first occurrence of a non-empty needle, if any.\<close>

fun is_prefix :: "string \<Rightarrow> string \<Rightarrow> bool" where
  "is_prefix [] s = True"
| "is_prefix (p # ps) [] = False"
| "is_prefix (p # ps) (x # xs) = (p = x \<and> is_prefix ps xs)"

fun strstr :: "string \<Rightarrow> string \<Rightarrow> nat option" where
  "strstr [] needle = None"
| "strstr (x # xs) needle =
     (if is_prefix needle (x # xs) then Some 0 else map_option Suc (strstr xs needle))"

lemma is_prefix_length: "is_prefix p s \<Longrightarrow> length p \<le> length s"
  by (induction p s rule: is_prefix.induct) auto

section \<open>Percent-encoding normalizer\<close>

text \<open>
  \<open>find_host_sep\<close>: the host starts after the first \<open>//\<close> (or at the start of the
  string); from there the first \<open>?\<close> and the first \<open>/\<close> are looked for, each
  defaulting to the end of the string, and the smaller index is returned.
\<close>

definition host_start :: "string \<Rightarrow> nat" where
  "host_start url = (case strstr url ''//'' of None \<Rightarrow> 0 | Some i \<Rightarrow> i + 2)"

definition find_host_sep :: "string \<Rightarrow> nat" where
  "find_host_sep url =
     (let sep0 = host_start url;
          query = (case strchr (drop sep0 url) CHR ''?'' of
                     None \<Rightarrow> length url | Some j \<Rightarrow> sep0 + j);
          sep = (case strchr (drop sep0 url) CHR ''/'' of
                     None \<Rightarrow> length url | Some j \<Rightarrow> sep0 + j)
      in if sep < query then sep else query)"

text \<open>
  The character classes of \<open>ctype.h\<close> in the "C" locale, on the byte value:
  control characters are 0..31 and 127, white space is 9..13 and 32, graphic
  characters are 33..126.
\<close>

definition ISCNTRL :: "char \<Rightarrow> bool" where
  "ISCNTRL c = ((of_char c :: nat) < 32 \<or> (of_char c :: nat) = 127)"

definition ISSPACE :: "char \<Rightarrow> bool" where
  "ISSPACE c = ((9 \<le> (of_char c :: nat) \<and> (of_char c :: nat) \<le> 13) \<or> (of_char c :: nat) = 32)"

definition ISGRAPH :: "char \<Rightarrow> bool" where
  "ISGRAPH c = (33 \<le> (of_char c :: nat) \<and> (of_char c :: nat) \<le> 126)"

definition urlchar_needs_escaping :: "char \<Rightarrow> bool" where
  "urlchar_needs_escaping c = (\<not> (ISCNTRL c \<or> ISSPACE c \<or> ISGRAPH c))"

text \<open>The output of \<open>snprintf(optr, 4, "%%%02x", c)\<close> for a byte \<open>c\<close>.\<close>

definition hexdigit :: "nat \<Rightarrow> char" where
  "hexdigit n = ''0123456789abcdef'' ! (n mod 16)"

definition percent_hex :: "char \<Rightarrow> string" where
  "percent_hex c = [CHR ''%'', hexdigit ((of_char c :: nat) div 16), hexdigit ((of_char c :: nat) mod 16)]"

text \<open>
  The loop of \<open>Curl_strlen_url\<close>: \<open>i\<close> is the index of the byte read,
  \<open>left\<close> says that no \<open>?\<close> was seen yet by the switch, \<open>newlen\<close> is the count.
\<close>

fun strlen_url_loop :: "nat \<Rightarrow> bool \<Rightarrow> nat \<Rightarrow> nat \<Rightarrow> string \<Rightarrow> nat" where
  "strlen_url_loop host_sep left i newlen [] = newlen"
| "strlen_url_loop host_sep left i newlen (c # cs) =
     (if i < host_sep then strlen_url_loop host_sep left (Suc i) (newlen + 1) cs
      else if c = CHR '' '' then
        strlen_url_loop host_sep left (Suc i) (if left then newlen + 3 else newlen + 1) cs
      else
        strlen_url_loop host_sep (if c = CHR ''?'' then False else left) (Suc i)
          ((if urlchar_needs_escaping c then newlen + 2 else newlen) + 1) cs)"

definition Curl_strlen_url :: "string \<Rightarrow> bool \<Rightarrow> nat" where
  "Curl_strlen_url url relative =
     strlen_url_loop (if relative then 0 else find_host_sep url) True 0 0 url"

text \<open>The loop of \<open>Curl_strcpy_url\<close>; the result is what is written to the output.\<close>

fun strcpy_url_loop :: "nat \<Rightarrow> bool \<Rightarrow> nat \<Rightarrow> string \<Rightarrow> string" where
  "strcpy_url_loop host_sep left i [] = []"
| "strcpy_url_loop host_sep left i (c # cs) =
     (if i < host_sep then c # strcpy_url_loop host_sep left (Suc i) cs
      else if c = CHR '' '' then
        (if left then ''%20'' else ''+'') @ strcpy_url_loop host_sep left (Suc i) cs
      else
        (if urlchar_needs_escaping c then percent_hex c else [c])
          @ strcpy_url_loop host_sep (if c = CHR ''?'' then False else left) (Suc i) cs)"

definition Curl_strcpy_url :: "string \<Rightarrow> bool \<Rightarrow> string" where
  "Curl_strcpy_url url relative =
     strcpy_url_loop (if relative then 0 else find_host_sep url) True 0 url"

section \<open>Relative resolver\<close>

text \<open>
  \<open>Curl_concat_url\<close> works on a copy of the base that it shortens by writing NUL
  bytes; the copy is modelled by the string before the first NUL, so a cut at index
  \<open>i\<close> is \<open>take i\<close>. \<open>protsep\<close> is an index into the copy, or \<open>None\<close> for the
  null pointer. Allocation is taken to succeed.
\<close>

text \<open>The loop that passes each leading \<open>../\<close> and counts them.\<close>

fun skip_dotdot :: "nat \<Rightarrow> string \<Rightarrow> nat \<times> string" where
  "skip_dotdot level (a # b # c # rest) =
     (if a = CHR ''.'' \<and> b = CHR ''.'' \<and> c = CHR ''/''
      then skip_dotdot (Suc level) rest
      else (level, a # b # c # rest))"
| "skip_dotdot level s = (level, s)"

text \<open>The loop that cuts one more level from the right of the copy per counted \<open>../\<close>.\<close>

fun cut_levels :: "nat \<Rightarrow> nat \<Rightarrow> string \<Rightarrow> string" where
  "cut_levels 0 protsep clone = clone"
| "cut_levels (Suc level) protsep clone =
     (case strrchr (drop protsep clone) CHR ''/'' of
        Some j \<Rightarrow> cut_levels level protsep (take (protsep + j) clone)
      | None \<Rightarrow> take protsep clone)"

definition Curl_concat_url :: "string \<Rightarrow> string \<Rightarrow> string" where
  "Curl_concat_url base relurl =
     (let protsep = host_start base in
      if nth_c relurl 0 \<noteq> CHR ''/'' then
        (let clone1 = (case strchr (drop protsep base) CHR ''?'' of
                         None \<Rightarrow> base | Some j \<Rightarrow> take (protsep + j) base);
             clone2 = (if nth_c relurl 0 \<noteq> CHR ''?'' then
                         (case strrchr (drop protsep clone1) CHR ''/'' of
                            None \<Rightarrow> clone1 | Some j \<Rightarrow> take (protsep + j) clone1)
                       else clone1);
             protsep2 = (case strchr (drop protsep clone2) CHR ''/'' of
                           Some j \<Rightarrow> Some (protsep + j + 1) | None \<Rightarrow> None);
             useurl1 = (if nth_c relurl 0 = CHR ''.'' \<and> nth_c relurl 1 = CHR ''/''
                        then drop 2 relurl else relurl);
             (level, useurl) = skip_dotdot 0 useurl1;
             clone3 = (case protsep2 of
                         Some p \<Rightarrow> cut_levels level p clone2 | None \<Rightarrow> clone2)
         in clone3
            @ (if nth_c useurl 0 = CHR ''/''
                  \<or> (case protsep2 of Some p \<Rightarrow> nth_c clone3 p = NUL | None \<Rightarrow> False)
                  \<or> nth_c useurl 0 = CHR ''?''
               then [] else ''/'')
            @ Curl_strcpy_url useurl True)
      else if nth_c relurl 1 = CHR ''/'' then
        (let clone = take protsep base;
             useurl = drop 2 relurl
         in clone
            @ (if nth_c useurl 0 = CHR ''/'' \<or> nth_c clone protsep = NUL
                  \<or> nth_c useurl 0 = CHR ''?''
               then [] else ''/'')
            @ Curl_strcpy_url useurl False)
      else
        (let clone =
               (case strchr (drop protsep base) CHR ''/'' of
                  Some j \<Rightarrow>
                    (case strchr (drop protsep base) CHR ''?'' of
                       Some q \<Rightarrow> if q < j then take (protsep + q) base
                                 else take (protsep + j) base
                     | None \<Rightarrow> take (protsep + j) base)
                | None \<Rightarrow>
                    (case strchr (drop protsep base) CHR ''?'' of
                       Some q \<Rightarrow> take (protsep + q) base
                     | None \<Rightarrow> base))
         in clone
            @ (if nth_c relurl 0 = CHR ''/'' \<or> nth_c clone protsep = NUL
                  \<or> nth_c relurl 0 = CHR ''?''
               then [] else ''/'')
            @ Curl_strcpy_url relurl True))"

section \<open>Data model\<close>

text \<open>
  The result codes and the parts that the code uses. A handle holds nine optional strings
  (a null pointer is \<open>None\<close>) and the numeric port; the scratch pointer is transient
  and null again after a successful parse, so it is not a field of the model.
  Allocation (\<open>malloc\<close>, \<open>calloc\<close>, \<open>strdup\<close>, \<open>aprintf\<close>) is taken to succeed.
\<close>

datatype CURLUcode =
    CURLURLE_OK
  | CURLURLE_MALFORMED_INPUT
  | CURLURLE_BAD_PORT_NUMBER
  | CURLURLE_UNSUPPORTED_SCHEME
  | CURLURLE_USER_NOT_ALLOWED
  | CURLURLE_OUT_OF_MEMORY
  | CURLURLE_NO_SCHEME
  | CURLURLE_NO_USER
  | CURLURLE_NO_PASSWORD
  | CURLURLE_NO_OPTIONS
  | CURLURLE_NO_HOST
  | CURLURLE_NO_PORT
  | CURLURLE_NO_PATH
  | CURLURLE_NO_QUERY
  | CURLURLE_NO_FRAGMENT

datatype CURLUPart =
    CURLUPART_URL
  | CURLUPART_SCHEME
  | CURLUPART_USER
  | CURLUPART_PASSWORD
  | CURLUPART_OPTIONS
  | CURLUPART_HOST
  | CURLUPART_PORT
  | CURLUPART_PATH
  | CURLUPART_QUERY
  | CURLUPART_FRAGMENT

record Curl_URL =
  scheme :: "string option"
  user :: "string option"
  password :: "string option"
  options :: "string option"
  host :: "string option"
  port :: "string option"
  path :: "string option"
  query :: "string option"
  fragment :: "string option"
  portnum :: int

text \<open>The handle that \<open>calloc\<close> returns: every pointer null, the number zero.\<close>

definition calloc_urlhandle :: Curl_URL where
  "calloc_urlhandle =
     \<lparr>scheme = None, user = None, password = None, options = None, host = None,
      port = None, path = None, query = None, fragment = None, portnum = 0\<rparr>"

text \<open>
  The flags word. The bit values are declared in a header that is not part of the
  sources at hand; the code only ever tests single bits, so the word is modelled by
  the seven bits it tests.
\<close>

record url_flags =
  DEFAULT_PORT :: bool
  NO_DEFAULT_PORT :: bool
  DEFAULT_SCHEME_flag :: bool
  NON_SUPPORT_SCHEME :: bool
  PATH_AS_IS :: bool
  DISALLOW_USER :: bool
  VERIFY_ONLY :: bool

definition no_flags :: url_flags where
  "no_flags =
     \<lparr>DEFAULT_PORT = False, NO_DEFAULT_PORT = False, DEFAULT_SCHEME_flag = False,
      NON_SUPPORT_SCHEME = False, PATH_AS_IS = False, DISALLOW_USER = False,
      VERIFY_ONLY = False\<rparr>"

definition DEFAULT_SCHEME :: string where
  "DEFAULT_SCHEME = ''https''"

text \<open>
  Three functions that the parser calls are defined in files that are not part of the
  sources at hand; they are parameters of the model:
  \<^item> \<open>Curl_builtin_scheme\<close> gives the handler of a scheme name, of which the code
    reads the default port, or null;
  \<^item> \<open>Curl_parse_login_details\<close> splits the text before the \<open>@\<close> into user,
    password and options (each possibly null), or reports an error (\<open>None\<close>);
  \<^item> \<open>Curl_dedotdotify\<close> returns the path with its dot segments removed.
\<close>

record collaborators =
  Curl_builtin_scheme :: "string \<Rightarrow> int option"
  Curl_parse_login_details :: "string \<Rightarrow> (string option \<times> string option \<times> string option) option"
  Curl_dedotdotify :: "string \<Rightarrow> string"

section \<open>Library functions\<close>

text \<open>
  The conversions of \<open>sscanf\<close> that the formats use. A scanset conversion
  \<open>%w[...]\<close> takes the longest run of at most \<open>w\<close> accepted bytes and fails on an
  empty run; a literal byte of the format must be the next byte of the input.
\<close>

definition scan_set :: "nat option \<Rightarrow> (char \<Rightarrow> bool) \<Rightarrow> string \<Rightarrow> (string \<times> string) option" where
  "scan_set w accepted s =
     (let run = (case w of None \<Rightarrow> takeWhile accepted s
                          | Some n \<Rightarrow> take n (takeWhile accepted s))
      in if run = [] then None else Some (run, drop (length run) s))"

definition scan_lit :: "char \<Rightarrow> string \<Rightarrow> string option" where
  "scan_lit c s = (case s of [] \<Rightarrow> None | x # xs \<Rightarrow> if x = c then Some xs else None)"

definition LF :: char where
  "LF = CHR 0x0A"

text \<open>
  \<open>strtol(s, &rest, 10)\<close>: white space is skipped, a sign is optional, then the
  longest run of decimal digits is read. The result is the value, kept inside the range
  of a 64-bit \<open>long\<close>, and the index at which the conversion stopped; with no
  digit the value is 0 and the index is 0, the start of \<open>s\<close>.
\<close>

definition ISDIGIT :: "char \<Rightarrow> bool" where
  "ISDIGIT c = (48 \<le> (of_char c :: nat) \<and> (of_char c :: nat) \<le> 57)"

fun digits_value :: "int \<Rightarrow> string \<Rightarrow> int" where
  "digits_value acc [] = acc"
| "digits_value acc (c # cs) = digits_value (acc * 10 + (of_char c - 48)) cs"

definition LONG_MAX :: int where
  "LONG_MAX = 2 ^ 63 - 1"

definition strtol10 :: "string \<Rightarrow> int \<times> nat" where
  "strtol10 s =
     (let ws = length (takeWhile ISSPACE s);
          s1 = drop ws s;
          negative = (nth_c s1 0 = CHR ''-'');
          sign = (if nth_c s1 0 = CHR ''-'' \<or> nth_c s1 0 = CHR ''+'' then 1 else 0);
          ds = takeWhile ISDIGIT (drop sign s1);
          v = digits_value 0 ds
      in if ds = [] then (0, 0)
         else (if negative then max (- LONG_MAX - 1) (- v) else min LONG_MAX v,
               ws + sign + length ds))"

text \<open>The output of \<open>snprintf(buf, n, "%ld", v)\<close>: at most \<open>n - 1\<close> bytes.\<close>

definition digit_char :: "int \<Rightarrow> char" where
  "digit_char d = ''0123456789'' ! nat (d mod 10)"

function decimal :: "int \<Rightarrow> string" where
  "decimal v =
     (if v < 10 then [digit_char v]
      else decimal (v div 10) @ [digit_char (v mod 10)])"
  by pat_completeness auto
termination
  by (relation "measure nat") auto

declare decimal.simps [simp del]

definition snprintf_ld :: "nat \<Rightarrow> int \<Rightarrow> string" where
  "snprintf_ld n v = take (n - 1) (if v < 0 then CHR ''-'' # decimal (- v) else decimal v)"

text \<open>
  Modelled from the spec: the case-insensitive ASCII compare and prefix match
  (\<open>strncasecompare\<close> and \<open>checkprefix\<close> are declared in a header that is not part
  of the sources at hand). \<open>strncasecompare first second m\<close> holds when the first
  \<open>m\<close> bytes of the two strings are the same, letters compared without case;
  \<open>checkprefix a b\<close> holds when \<open>b\<close> starts with \<open>a\<close> in that sense.
\<close>

definition raw_toupper :: "char \<Rightarrow> char" where
  "raw_toupper c =
     (case map_of (zip ''abcdefghijklmnopqrstuvwxyz'' ''ABCDEFGHIJKLMNOPQRSTUVWXYZ'') c of
        Some upper \<Rightarrow> upper
      | None \<Rightarrow> c)"

definition strncasecompare :: "string \<Rightarrow> string \<Rightarrow> nat \<Rightarrow> bool" where
  "strncasecompare first second m =
     (map raw_toupper (take m first) = map raw_toupper (take m second))"

definition checkprefix :: "string \<Rightarrow> string \<Rightarrow> bool" where
  "checkprefix a b = strncasecompare a b (length a)"

text \<open>
  The scratch area of the parser is a byte buffer, with the strings in it ended by NUL
  bytes that the code writes; \<open>cstr buf i\<close> is the string that starts at index \<open>i\<close>.
\<close>

definition cstr :: "string \<Rightarrow> nat \<Rightarrow> string" where
  "cstr buf i = takeWhile (\<lambda>c. c \<noteq> NUL) (drop i buf)"

definition memmove :: "nat \<Rightarrow> nat \<Rightarrow> nat \<Rightarrow> string \<Rightarrow> string" where
  "memmove dst src n buf = take dst buf @ take n (drop src buf) @ drop (dst + n) buf"

section \<open>Parser\<close>

text \<open>
  \<open>parse_hostname_login\<close>: with an \<open>@\<close> in the host text, the text before the
  first one goes to the login splitter and the host text continues after it. The
  result is the code on an error, otherwise the handle and the new host text.
\<close>

definition parse_hostname_login ::
  "collaborators \<Rightarrow> Curl_URL \<Rightarrow> string \<Rightarrow> url_flags \<Rightarrow> CURLUcode + (Curl_URL \<times> string)" where
  "parse_hostname_login X u hostname flags =
     (case strchr hostname CHR ''@'' of
        None \<Rightarrow> Inr (u, hostname)
      | Some i \<Rightarrow>
          (case Curl_parse_login_details X (take i hostname) of
             None \<Rightarrow> Inl CURLURLE_MALFORMED_INPUT
           | Some (userp, passwdp, optionsp) \<Rightarrow>
               if userp \<noteq> None \<and> DISALLOW_USER flags then Inl CURLURLE_USER_NOT_ALLOWED
               else Inr (u\<lparr>user := (case userp of None \<Rightarrow> user u | Some x \<Rightarrow> Some x),
                           password := (case passwdp of None \<Rightarrow> password u | Some x \<Rightarrow> Some x),
                           options := (case optionsp of None \<Rightarrow> options u | Some x \<Rightarrow> Some x)\<rparr>,
                         drop (Suc i) hostname)))"

text \<open>
  The scan \<open>sscanf(hostname, "[%*45[0123456789abcdefABCDEF:.]%c%n", &endbracket, &len)\<close>:
  when it returns 1, the byte read by \<open>%c\<close> and the number of bytes consumed.
\<close>

definition scan_bracket :: "string \<Rightarrow> (char \<times> nat) option" where
  "scan_bracket hostname =
     (case scan_lit CHR ''['' hostname of
        None \<Rightarrow> None
      | Some r1 \<Rightarrow>
          (case scan_set (Some 45) (\<lambda>c. c \<in> set ''0123456789abcdefABCDEF:.'') r1 of
             None \<Rightarrow> None
           | Some (run, r2) \<Rightarrow>
               (case r2 of
                  [] \<Rightarrow> None
                | endbracket # r3 \<Rightarrow> Some (endbracket, 1 + length run + 1))))"

definition parse_port :: "Curl_URL \<Rightarrow> string \<Rightarrow> CURLUcode + (Curl_URL \<times> string)" where
  "parse_port u hostname =
     (let bracket = (case scan_bracket hostname of
                       Some (endbracket, len) \<Rightarrow>
                         if endbracket = CHR '']'' then Some len else None
                     | None \<Rightarrow> None)
      in if (case bracket of Some len \<Rightarrow> nth_c hostname len \<noteq> CHR '':'' | None \<Rightarrow> False)
         then Inl CURLURLE_MALFORMED_INPUT
         else
           (case (case bracket of Some len \<Rightarrow> Some len
                                | None \<Rightarrow> strchr hostname CHR '':'') of
              None \<Rightarrow> Inr (u, hostname)
            | Some portptr \<Rightarrow>
                (let digits = drop (Suc portptr) hostname;
                     (port_value, rest) = strtol10 digits
                 in if port_value \<le> 0 \<or> port_value > 0xffff then Inl CURLURLE_BAD_PORT_NUMBER
                    else if nth_c digits rest \<noteq> NUL then Inl CURLURLE_BAD_PORT_NUMBER
                    else if rest \<noteq> 0 then
                      Inr (u\<lparr>port := Some (snprintf_ld 7 port_value),
                             portnum := port_value\<rparr>,
                           take portptr hostname)
                    else Inr (u, take portptr hostname))))"

text \<open>
  \<open>hostname_check\<close>: \<open>hlen\<close> is a \<open>size_t\<close>, so \<open>hlen -= 2\<close> wraps around
  (64 bits) when the host text is the single byte \<open>[\<close>.
\<close>

definition hostname_check :: "string \<Rightarrow> url_flags \<Rightarrow> CURLUcode" where
  "hostname_check hostname flags =
     (let hlen = length hostname
      in if nth_c hostname 0 = CHR ''[''
         then (if (int hlen - 2) mod 2 ^ 64
                    = int (length (takeWhile (\<lambda>c. c \<in> set ''0123456789abcdefABCDEF::.'')
                                    (drop 1 hostname)))
               then CURLURLE_OK else CURLURLE_MALFORMED_INPUT)
         else (if hlen
                    = length (takeWhile
                        (\<lambda>c. c \<in> set ''0123456789abcdefghijklimnopqrstuvwxyz-.ABCDEFGHIJKLIMNOPQRSTUVWXYZ'')
                        hostname)
               then CURLURLE_OK else CURLURLE_MALFORMED_INPUT))"

text \<open>The scan of the first 16 bytes that decides \<open>url_has_scheme\<close>.\<close>

fun scheme_scan :: "nat \<Rightarrow> string \<Rightarrow> bool" where
  "scheme_scan 0 s = False"
| "scheme_scan (Suc n) [] = False"
| "scheme_scan (Suc n) (c # cs) =
     (if c = CHR ''/'' then False else if c = CHR '':'' then True else scheme_scan n cs)"

definition STARTS_WITH_URL_DRIVE_PREFIX :: "string \<Rightarrow> bool" where
  "STARTS_WITH_URL_DRIVE_PREFIX str =
     (((97 \<le> (of_char (nth_c str 0) :: nat) \<and> (of_char (nth_c str 0) :: nat) \<le> 122)
         \<or> (65 \<le> (of_char (nth_c str 0) :: nat) \<and> (of_char (nth_c str 0) :: nat) \<le> 90))
      \<and> (nth_c str 1 = CHR '':'' \<or> nth_c str 1 = CHR ''|'')
      \<and> (nth_c str 2 = CHR ''/'' \<or> nth_c str 2 = CHR 0x5C \<or> nth_c str 2 = NUL))"

text \<open>
  The three scans of the URL. Each gives the strings it assigned, in order, so the
  value that \<open>sscanf\<close> returns is the length of the list; a return of \<open>EOF\<close> is an
  empty list, since every test of the code treats it as it treats 0.
  The first is \<open>"%*15[^\n/:]:%[^\n]"\<close>, the second
  \<open>"%15[^\n/:]:%3[/]%[^\n/?#]%[^\n]"\<close>, the third \<open>"%[^\n/?#]%[^\n]"\<close>.
\<close>

definition sscanf_file :: "string \<Rightarrow> string list" where
  "sscanf_file url =
     (case scan_set (Some 15) (\<lambda>c. c \<notin> {LF, CHR ''/'', CHR '':''}) url of
        None \<Rightarrow> []
      | Some (skipped, r1) \<Rightarrow>
          (case scan_lit CHR '':'' r1 of
             None \<Rightarrow> []
           | Some r2 \<Rightarrow>
               (case scan_set None (\<lambda>c. c \<noteq> LF) r2 of
                  None \<Rightarrow> []
                | Some (pathbuf, r3) \<Rightarrow> [pathbuf])))"

definition sscanf_url :: "string \<Rightarrow> string list" where
  "sscanf_url url =
     (case scan_set (Some 15) (\<lambda>c. c \<notin> {LF, CHR ''/'', CHR '':''}) url of
        None \<Rightarrow> []
      | Some (schemebuf, r1) \<Rightarrow>
          (case scan_lit CHR '':'' r1 of
             None \<Rightarrow> [schemebuf]
           | Some r2 \<Rightarrow>
               (case scan_set (Some 3) (\<lambda>c. c = CHR ''/'') r2 of
                  None \<Rightarrow> [schemebuf]
                | Some (slashbuf, r3) \<Rightarrow>
                    (case scan_set None (\<lambda>c. c \<notin> {LF, CHR ''/'', CHR ''?'', CHR ''#''}) r3 of
                       None \<Rightarrow> [schemebuf, slashbuf]
                     | Some (hostname, r4) \<Rightarrow>
                         (case scan_set None (\<lambda>c. c \<noteq> LF) r4 of
                            None \<Rightarrow> [schemebuf, slashbuf, hostname]
                          | Some (pathbuf, r5) \<Rightarrow> [schemebuf, slashbuf, hostname, pathbuf])))))"

definition sscanf_noscheme :: "string \<Rightarrow> string list" where
  "sscanf_noscheme url =
     (case scan_set None (\<lambda>c. c \<notin> {LF, CHR ''/'', CHR ''?'', CHR ''#''}) url of
        None \<Rightarrow> []
      | Some (hostname, r1) \<Rightarrow>
          (case scan_set None (\<lambda>c. c \<noteq> LF) r1 of
             None \<Rightarrow> [hostname]
           | Some (pathbuf, r2) \<Rightarrow> [hostname, pathbuf]))"

text \<open>
  The path half of the scratch area has \<open>urllen + 1\<close> bytes. A scan writes the path
  and its terminator at the start; the bytes behind are never read before they are
  written, and are NUL in the model.
\<close>

definition path_area :: "string \<Rightarrow> string \<Rightarrow> string" where
  "path_area url p = p @ replicate (length url + 1 - length p) NUL"

text \<open>
  The \<open>file:\<close> branch (in the build for systems without drive letters): the
  result is the path area, or the error.
\<close>

definition parse_file :: "string \<Rightarrow> CURLUcode + string" where
  "parse_file url =
     (case sscanf_file url of
        [p] \<Rightarrow>
          (let buf = path_area url p in
           case (if nth_c p 0 = CHR ''/'' \<and> nth_c p 1 = CHR ''/'' then
                   (let ptr = cstr buf 2 in
                    if nth_c ptr 0 \<noteq> CHR ''/'' \<and> \<not> STARTS_WITH_URL_DRIVE_PREFIX ptr then
                      (if \<not> checkprefix ''localhost/'' ptr \<and> \<not> checkprefix ''127.0.0.1/'' ptr
                       then Inl CURLURLE_MALFORMED_INPUT
                       else Inr (memmove 0 11 (length (cstr buf 11) + 1) buf))
                    else Inr (memmove 0 2 (length ptr + 1) buf))
                 else Inr buf) of
             Inl e \<Rightarrow> Inl e
           | Inr buf1 \<Rightarrow>
               if (nth_c (cstr buf1 0) 0 = CHR ''/'' \<and> STARTS_WITH_URL_DRIVE_PREFIX (cstr buf1 1))
                  \<or> STARTS_WITH_URL_DRIVE_PREFIX (cstr buf1 0)
               then Inl CURLURLE_MALFORMED_INPUT
               else Inr buf1)
      | _ \<Rightarrow> Inl CURLURLE_MALFORMED_INPUT)"

text \<open>
  The branch of every other URL: the result is the handle with its scheme, the host
  text and the path area, or the error.
\<close>

definition parse_generic ::
  "collaborators \<Rightarrow> string \<Rightarrow> Curl_URL \<Rightarrow> url_flags \<Rightarrow> CURLUcode + (Curl_URL \<times> string \<times> string)" where
  "parse_generic X url u flags =
     (case (case sscanf_url url of
              [schemebuf, slashbuf, hostname, p] \<Rightarrow> Inr (schemebuf, hostname, p)
            | [schemebuf, slashbuf, hostname] \<Rightarrow> Inr (schemebuf, hostname, [])
            | [schemebuf, slashbuf] \<Rightarrow> Inl CURLURLE_MALFORMED_INPUT
            | _ \<Rightarrow>
                if \<not> DEFAULT_SCHEME_flag flags then Inl CURLURLE_MALFORMED_INPUT
                else (case sscanf_noscheme url of
                        [hostname, p] \<Rightarrow> Inr (DEFAULT_SCHEME, hostname, p)
                      | [hostname] \<Rightarrow> Inr (DEFAULT_SCHEME, hostname, [])
                      | _ \<Rightarrow> Inl CURLURLE_MALFORMED_INPUT)) of
        Inl e \<Rightarrow> Inl e
      | Inr (schemep, hostname, p) \<Rightarrow>
          if Curl_builtin_scheme X schemep = None \<and> \<not> NON_SUPPORT_SCHEME flags
          then Inl CURLURLE_UNSUPPORTED_SCHEME
          else Inr (u\<lparr>scheme := Some schemep\<rparr>, hostname, path_area url p))"

text \<open>
  The cut of the query and of the fragment in the path area: the area, and the
  pointers \<open>query\<close> and \<open>fragment\<close> as indices into it.
\<close>

definition cut_query_fragment :: "string \<Rightarrow> string \<times> nat option \<times> nat option" where
  "cut_query_fragment buf =
     (let (buf1, query_p) = (case strchr (cstr buf 0) CHR ''?'' of
                               Some q \<Rightarrow> (buf[q := NUL], Some (Suc q))
                             | None \<Rightarrow> (buf, None));
          base = (case query_p of Some qi \<Rightarrow> qi | None \<Rightarrow> 0)
      in case strchr (cstr buf1 base) CHR ''#'' of
           Some f \<Rightarrow> (buf1[base + f := NUL], query_p, Some (Suc (base + f)))
         | None \<Rightarrow> (buf1, query_p, None))"

text \<open>
  The path that is stored: \<open>/\<close> for an empty path; a path that does not start with
  \<open>/\<close> is moved one byte up in the area and gets the slash in front; otherwise,
  unless the path is kept as it is, the path without its dot segments when that
  differs. The area is returned too, since the move changes it.
\<close>

definition stored_path :: "collaborators \<Rightarrow> url_flags \<Rightarrow> string \<Rightarrow> string \<times> string" where
  "stored_path X flags buf =
     (let p = (if cstr buf 0 = [] then ''/'' else cstr buf 0)
      in if nth_c p 0 \<noteq> CHR ''/'' then
           (let buf1 = (memmove 1 0 (length p + 1) buf)[0 := CHR ''/'']
            in (buf1, cstr buf1 0))
         else if \<not> PATH_AS_IS flags then
           (let newp = Curl_dedotdotify X p
            in (buf, if newp \<noteq> p then newp else p))
         else (buf, p))"

text \<open>
  \<open>parseurl\<close>. On the \<open>file:\<close> branch nothing writes the host half of the
  scratch area before it is read: \<open>junk\<close> is the string that the allocation happens
  to hold there. On an error the caller releases the handle, so only the code is
  returned.
\<close>

definition parseurl ::
  "collaborators \<Rightarrow> string \<Rightarrow> string \<Rightarrow> Curl_URL \<Rightarrow> url_flags \<Rightarrow> CURLUcode + Curl_URL" where
  "parseurl X junk url u flags =
     (if nth_c url 0 = CHR '':'' then Inl CURLURLE_MALFORMED_INPUT
      else
        case (if scheme_scan 16 url \<and> strncasecompare url ''file:'' 5
              then (case parse_file url of
                      Inl e \<Rightarrow> Inl e
                    | Inr buf \<Rightarrow> Inr (u, junk, buf))
              else parse_generic X url u flags) of
          Inl e \<Rightarrow> Inl e
        | Inr (u1, hostname, buf) \<Rightarrow>
            (let (buf1, query_p, fragment_p) = cut_query_fragment buf;
                 (buf2, p) = stored_path X flags buf1;
                 u2 = u1\<lparr>path := Some p\<rparr>
             in case parse_hostname_login X u2 hostname flags of
                  Inl e \<Rightarrow> Inl e
                | Inr (u3, hostname1) \<Rightarrow>
                    (case parse_port u3 hostname1 of
                       Inl e \<Rightarrow> Inl e
                     | Inr (u4, hostname2) \<Rightarrow>
                         if hostname_check hostname2 flags \<noteq> CURLURLE_OK
                         then Inl (hostname_check hostname2 flags)
                         else
                           (let u5 = u4\<lparr>host := Some hostname2\<rparr>;
                                u6 = (case query_p of
                                        Some qi \<Rightarrow>
                                          if cstr buf2 qi \<noteq> [] then u5\<lparr>query := Some (cstr buf2 qi)\<rparr>
                                          else u5
                                      | None \<Rightarrow> u5);
                                u7 = (case fragment_p of
                                        Some fi \<Rightarrow>
                                          if cstr buf2 fi \<noteq> []
                                          then u6\<lparr>fragment := Some (cstr buf2 fi)\<rparr>
                                          else u6
                                      | None \<Rightarrow> u6)
                            in Inr u7))))"

section \<open>Accessor API\<close>

text \<open>
  \<open>curl_url\<close>: the code and the handle stored through the out parameter, which is null
  (\<open>None\<close>) on an error and also when only a verification was asked for.
\<close>

definition curl_url ::
  "collaborators \<Rightarrow> string \<Rightarrow> string \<Rightarrow> url_flags \<Rightarrow> CURLUcode \<times> Curl_URL option" where
  "curl_url X junk URL flags =
     (case parseurl X junk URL calloc_urlhandle flags of
        Inl e \<Rightarrow> (e, None)
      | Inr u \<Rightarrow> if VERIFY_ONLY flags then (CURLURLE_OK, None) else (CURLURLE_OK, Some u))"

text \<open>
  The port that \<open>curl_url_get\<close> delivers for the parts PORT and URL, given the scheme
  that is in use (if any): the default port of the scheme when none is stored and the
  default is asked for, and none when the stored one is the default and that is to be
  left out.
\<close>

definition delivered_port ::
  "collaborators \<Rightarrow> Curl_URL \<Rightarrow> string option \<Rightarrow> url_flags \<Rightarrow> string option" where
  "delivered_port X u schemep flags =
     (case schemep of
        None \<Rightarrow> port u
      | Some s \<Rightarrow>
          if port u = None \<and> DEFAULT_PORT flags then
            (case Curl_builtin_scheme X s of
               Some defport \<Rightarrow> Some (snprintf_ld 7 defport)
             | None \<Rightarrow> None)
          else if port u \<noteq> None then
            (case Curl_builtin_scheme X s of
               Some defport \<Rightarrow>
                 if defport = portnum u \<and> NO_DEFAULT_PORT flags then None else port u
             | None \<Rightarrow> port u)
          else port u)"

text \<open>
  A string argument of the \<open>%s\<close> conversions of \<open>aprintf\<close>; the library's own
  implementation prints \<open>(nil)\<close> for a null pointer.
\<close>

definition printf_s :: "string option \<Rightarrow> string" where
  "printf_s a = (case a of None \<Rightarrow> ''(nil)'' | Some x \<Rightarrow> x)"

definition curl_url_get ::
  "collaborators \<Rightarrow> Curl_URL \<Rightarrow> CURLUPart \<Rightarrow> url_flags \<Rightarrow> CURLUcode + string" where
  "curl_url_get X u what flags =
     (case what of
        CURLUPART_URL \<Rightarrow>
          (case host u of
             None \<Rightarrow> Inl CURLURLE_NO_HOST
           | Some h \<Rightarrow>
               (case (case scheme u of
                        Some s \<Rightarrow> Some s
                      | None \<Rightarrow> if DEFAULT_SCHEME_flag flags then Some DEFAULT_SCHEME else None) of
                  None \<Rightarrow> Inl CURLURLE_NO_SCHEME
                | Some s \<Rightarrow>
                    (let p = delivered_port X u (Some s) flags
                     in Inr (s @ ''://''
                             @ (case user u of None \<Rightarrow> [] | Some x \<Rightarrow> x)
                             @ (if password u \<noteq> None then '':'' else [])
                             @ (case password u of None \<Rightarrow> [] | Some x \<Rightarrow> x)
                             @ (if user u \<noteq> None \<or> password u \<noteq> None then ''@'' else [])
                             @ h
                             @ (if p \<noteq> None then '':'' else [])
                             @ (case p of None \<Rightarrow> [] | Some x \<Rightarrow> x)
                             @ printf_s (path u)
                             @ (if query u \<noteq> None then ''?'' else [])
                             @ (case query u of None \<Rightarrow> [] | Some x \<Rightarrow> x)
                             @ (if fragment u \<noteq> None then ''#'' else [])
                             @ (case fragment u of None \<Rightarrow> [] | Some x \<Rightarrow> x)))))
      | _ \<Rightarrow>
          (let (ptr, ifmissing) =
                 (case what of
                    CURLUPART_SCHEME \<Rightarrow> (scheme u, CURLURLE_NO_SCHEME)
                  | CURLUPART_USER \<Rightarrow> (user u, CURLURLE_NO_USER)
                  | CURLUPART_PASSWORD \<Rightarrow> (password u, CURLURLE_NO_PASSWORD)
                  | CURLUPART_OPTIONS \<Rightarrow> (options u, CURLURLE_NO_OPTIONS)
                  | CURLUPART_HOST \<Rightarrow> (host u, CURLURLE_NO_HOST)
                  | CURLUPART_PORT \<Rightarrow> (delivered_port X u (scheme u) flags, CURLURLE_NO_PORT)
                  | CURLUPART_PATH \<Rightarrow> (path u, CURLURLE_NO_PATH)
                  | CURLUPART_QUERY \<Rightarrow> (query u, CURLURLE_NO_QUERY)
                  | _ \<Rightarrow> (fragment u, CURLURLE_NO_FRAGMENT))
           in case ptr of Some x \<Rightarrow> Inr x | None \<Rightarrow> Inl ifmissing))"

text \<open>
  \<open>Curl_is_absolute_url\<close>: the scan \<open>"%15[^?&/:]://%c"\<close> assigns both of its
  arguments.
\<close>

definition Curl_is_absolute_url :: "string \<Rightarrow> bool" where
  "Curl_is_absolute_url url =
     (case scan_set (Some 15) (\<lambda>c. c \<notin> {CHR ''?'', CHR ''&'', CHR ''/'', CHR '':''}) url of
        None \<Rightarrow> False
      | Some (prot, r1) \<Rightarrow>
          (case scan_lit CHR '':'' r1 of
             None \<Rightarrow> False
           | Some r2 \<Rightarrow>
               (case scan_lit CHR ''/'' r2 of
                  None \<Rightarrow> False
                | Some r3 \<Rightarrow>
                    (case scan_lit CHR ''/'' r3 of
                       None \<Rightarrow> False
                     | Some r4 \<Rightarrow> r4 \<noteq> []))))"

text \<open>
  What a call of \<open>curl_url_set\<close> ends in: it returns a code and leaves the handle in
  some state, or it reads through a null pointer.
\<close>

datatype set_outcome = Returns CURLUcode Curl_URL | Null_dereference

text \<open>
  The end of \<open>curl_url_set\<close> for a part that is one string: the copy of the value is
  stored unless its first byte is NUL, and then the number of the port, if one was
  read.
\<close>

definition store_part ::
  "Curl_URL \<Rightarrow> (string option \<Rightarrow> Curl_URL \<Rightarrow> Curl_URL) \<Rightarrow> string \<Rightarrow> int \<Rightarrow> set_outcome" where
  "store_part u storep part port_value =
     (if nth_c part 0 = NUL then Returns CURLURLE_OUT_OF_MEMORY u
      else (let u1 = storep (Some part) u
            in Returns CURLURLE_OK (if port_value \<noteq> 0 then u1\<lparr>portnum := port_value\<rparr> else u1)))"

text \<open>
  The replacement of the handle by the one that \<open>curl_url\<close> stored: the copy reads
  through that pointer.
\<close>

definition replace_handle :: "Curl_URL \<Rightarrow> CURLUcode \<times> Curl_URL option \<Rightarrow> set_outcome" where
  "replace_handle u r =
     (case r of
        (CURLURLE_OK, Some handle2) \<Rightarrow> Returns CURLURLE_OK handle2
      | (CURLURLE_OK, None) \<Rightarrow> Null_dereference
      | (e, _) \<Rightarrow> Returns e u)"

definition curl_url_set ::
  "collaborators \<Rightarrow> string \<Rightarrow> Curl_URL \<Rightarrow> CURLUPart \<Rightarrow> string \<Rightarrow> url_flags \<Rightarrow> set_outcome" where
  "curl_url_set X junk u what part flags =
     (case what of
        CURLUPART_SCHEME \<Rightarrow>
          if \<not> NON_SUPPORT_SCHEME flags \<and> Curl_builtin_scheme X part = None
          then Returns CURLURLE_UNSUPPORTED_SCHEME u
          else store_part u (\<lambda>v h. h\<lparr>scheme := v\<rparr>) part 0
      | CURLUPART_USER \<Rightarrow> store_part u (\<lambda>v h. h\<lparr>user := v\<rparr>) part 0
      | CURLUPART_PASSWORD \<Rightarrow> store_part u (\<lambda>v h. h\<lparr>password := v\<rparr>) part 0
      | CURLUPART_OPTIONS \<Rightarrow> store_part u (\<lambda>v h. h\<lparr>options := v\<rparr>) part 0
      | CURLUPART_HOST \<Rightarrow> store_part u (\<lambda>v h. h\<lparr>host := v\<rparr>) part 0
      | CURLUPART_PORT \<Rightarrow>
          (let port_value = fst (strtol10 part)
           in if port_value \<le> 0 \<or> port_value > 0xffff
              then Returns CURLURLE_BAD_PORT_NUMBER u
              else store_part u (\<lambda>v h. h\<lparr>port := v\<rparr>) part port_value)
      | CURLUPART_PATH \<Rightarrow> store_part u (\<lambda>v h. h\<lparr>path := v\<rparr>) part 0
      | CURLUPART_QUERY \<Rightarrow> store_part u (\<lambda>v h. h\<lparr>query := v\<rparr>) part 0
      | CURLUPART_FRAGMENT \<Rightarrow> store_part u (\<lambda>v h. h\<lparr>fragment := v\<rparr>) part 0
      | CURLUPART_URL \<Rightarrow>
          if Curl_is_absolute_url part then replace_handle u (curl_url X junk part flags)
          else
            (case curl_url_get X u CURLUPART_URL flags of
               Inl e \<Rightarrow> Returns e u
             | Inr oldurl \<Rightarrow>
                 replace_handle u (curl_url X junk (Curl_concat_url oldurl part) flags)))"

section \<open>The collaborators, from the spec\<close>

text \<open>
  Modelled from the spec: \<open>Curl_dedotdotify\<close>, whose file is not part of the sources
  at hand, as the dot-segment normalizer "\<open>normalize(path) -> canonical_path\<close> (RFC3986
  remove_dot_segments)": the loop of RFC 3986, section 5.2.4, over an input buffer and
  an output buffer.
\<close>

definition remove_last_segment :: "string \<Rightarrow> string" where
  "remove_last_segment out =
     (case strrchr out CHR ''/'' of Some i \<Rightarrow> take i out | None \<Rightarrow> [])"

definition first_segment :: "string \<Rightarrow> string" where
  "first_segment inp =
     (case inp of
        [] \<Rightarrow> []
      | c # cs \<Rightarrow> c # takeWhile (\<lambda>x. x \<noteq> CHR ''/'') cs)"

function remove_dots :: "string \<Rightarrow> string \<Rightarrow> string" where
  "remove_dots inp out =
     (if inp = [] then out
      else if is_prefix ''../'' inp then remove_dots (drop 3 inp) out
      else if is_prefix ''./'' inp then remove_dots (drop 2 inp) out
      else if is_prefix ''/./'' inp then remove_dots (drop 2 inp) out
      else if inp = ''/.'' then remove_dots ''/'' out
      else if is_prefix ''/../'' inp then remove_dots (drop 3 inp) (remove_last_segment out)
      else if inp = ''/..'' then remove_dots ''/'' (remove_last_segment out)
      else if inp = ''.'' \<or> inp = ''..'' then out
      else remove_dots (drop (length (first_segment inp)) inp) (out @ first_segment inp))"
  by pat_completeness auto
termination
proof (relation "measure (\<lambda>(inp, out). length inp)")
  show "wf (measure (\<lambda>(inp, out). length inp))" by simp
next
  fix inp out :: string
  assume "inp \<noteq> []"
  then show "((drop (length (first_segment inp)) inp, out @ first_segment inp), inp, out)
             \<in> measure (\<lambda>(inp, out). length inp)"
    by (cases inp) (simp_all add: first_segment_def)
qed (auto dest: is_prefix_length)

declare remove_dots.simps [simp del]

definition remove_dot_segments :: "string \<Rightarrow> string" where
  "remove_dot_segments p = remove_dots p []"

text \<open>
  Modelled from the spec: the scheme directory "\<open>lookup(name) -> {is_registered,
  default_port}\<close>", with the two schemes that the spec names: \<open>http\<close> with the
  default port 80 and the default scheme \<open>https\<close>.
\<close>

definition scheme_directory :: "string \<Rightarrow> int option" where
  "scheme_directory name =
     (if name = ''http'' then Some 80 else if name = ''https'' then Some 443 else None)"

text \<open>
  Modelled from the spec: the login splitter, which tokenizes
  "\<open>user[:password][;options]\<close>": the options follow the first \<open>;\<close>, the password
  the first \<open>:\<close> before that; an empty token is absent.
\<close>

definition split_at :: "char \<Rightarrow> string \<Rightarrow> string \<times> string" where
  "split_at c s = (takeWhile (\<lambda>x. x \<noteq> c) s, drop (Suc (length (takeWhile (\<lambda>x. x \<noteq> c) s))) s)"

definition nonempty :: "string \<Rightarrow> string option" where
  "nonempty s = (if s = [] then None else Some s)"

definition login_splitter :: "string \<Rightarrow> (string option \<times> string option \<times> string option) option" where
  "login_splitter login =
     (let (up, opts) = split_at CHR '';'' login;
          (usr, pw) = split_at CHR '':'' up
      in Some (nonempty usr, nonempty pw, nonempty opts))"

definition spec_collaborators :: collaborators where
  "spec_collaborators =
     \<lparr>Curl_builtin_scheme = scheme_directory,
      Curl_parse_login_details = login_splitter,
      Curl_dedotdotify = remove_dot_segments\<rparr>"

section \<open>The escaping rule as the spec words it\<close>







section \<open>The string that a composite set parses\<close>

text \<open>
  For the part URL, \<open>curl_url_set\<close> parses the value itself when it is an absolute
  URL, and otherwise the value resolved against the URL that \<open>curl_url_get\<close> makes of
  the handle; when that fails there is nothing to parse, only the code.
\<close>

definition reparsed_string ::
  "collaborators \<Rightarrow> Curl_URL \<Rightarrow> string \<Rightarrow> url_flags \<Rightarrow> CURLUcode + string" where
  "reparsed_string X u part flags =
     (if Curl_is_absolute_url part then Inr part
      else (case curl_url_get X u CURLUPART_URL flags of
              Inl e \<Rightarrow> Inl e
            | Inr oldurl \<Rightarrow> Inr (Curl_concat_url oldurl part)))"

section \<open>Facts about the string functions\<close>









section \<open>The escaping pair\<close>

lemma strlen_url_loop_eq:
  "strlen_url_loop hs left i n s = n + length (strcpy_url_loop hs left i s)"
  by (induction s arbitrary: left i n) (auto simp: percent_hex_def)

text \<open>
  C3. The length that \<open>Curl_strlen_url\<close> computes is the length of what
  \<open>Curl_strcpy_url\<close> writes, for every string and either value of the relative flag;
  and the copy of \<open>http://a/b c?d e\<close>, not relative, is \<open>http://a/b%20c?d+e\<close>.
\<close>

theorem Curl_strlen_url_is_length_of_copy:
  "Curl_strlen_url s r = length (Curl_strcpy_url s r)
   \<and> Curl_strcpy_url ''http://a/b c?d e'' False = ''http://a/b%20c?d+e''"
proof
  show "Curl_strlen_url s r = length (Curl_strcpy_url s r)"
    by (simp add: Curl_strlen_url_def Curl_strcpy_url_def strlen_url_loop_eq)
  show "Curl_strcpy_url ''http://a/b c?d e'' False = ''http://a/b%20c?d+e''"
    by code_simp
qed

section \<open>The boundary and the space rule\<close>











section \<open>The relative resolver on the examples\<close>

text \<open>
  C7. \<open>Curl_concat_url\<close> gives \<open>http://a/d\<close> for \<open>http://a/b/c\<close> and \<open>../d\<close>,
  \<open>http://a/b/e\<close> for \<open>http://a/b/c?q=1\<close> and \<open>e\<close>, and \<open>http://other/x\<close> for
  \<open>http://a/b/c\<close> and \<open>//other/x\<close>.
\<close>

theorem Curl_concat_url_examples:
  "Curl_concat_url ''http://a/b/c'' ''../d'' = ''http://a/d''
   \<and> Curl_concat_url ''http://a/b/c?q=1'' ''e'' = ''http://a/b/e''
   \<and> Curl_concat_url ''http://a/b/c'' ''//other/x'' = ''http://other/x''"
  by code_simp

section \<open>The port behind the host\<close>

text \<open>
  C4. A colon with no digit behind it is not tolerated: \<open>strtol\<close> gives 0 there, and
  the test for a port of 0 or less comes first, so \<open>http://host:/path\<close> and
  \<open>http://host:\<close> end in the bad-port code and the branch that would drop the
  colon is not reached.
\<close>

theorem parseurl_colon_without_digits:
  "parseurl spec_collaborators [] ''http://host:/path'' calloc_urlhandle no_flags
     = Inl CURLURLE_BAD_PORT_NUMBER
   \<and> parseurl spec_collaborators [] ''http://host:'' calloc_urlhandle no_flags
     = Inl CURLURLE_BAD_PORT_NUMBER"
  by code_simp

text \<open>
  C5. \<open>http://[::1]:8080/\<close> parses with the host \<open>[::1]\<close> and the port 8080;
  \<open>http://[::1]/\<close>, the same URL with no port, is refused as malformed, because the
  byte behind the bracket must be a colon.
\<close>

theorem parseurl_bracketed_ipv6:
  "parseurl spec_collaborators [] ''http://[::1]:8080/'' calloc_urlhandle no_flags
     = Inr \<lparr>scheme = Some ''http'', user = None, password = None, options = None,
            host = Some ''[::1]'', port = Some ''8080'', path = Some ''/'', query = None,
            fragment = None, portnum = 8080\<rparr>
   \<and> parseurl spec_collaborators [] ''http://[::1]/'' calloc_urlhandle no_flags
     = Inl CURLURLE_MALFORMED_INPUT"
  by code_simp

section \<open>The stored path\<close>

text \<open>
  C6. A path that gets its slash inserted is stored as it is: \<open>file:a/../b\<close> (with
  an empty string in the host half of the scratch area) has the path \<open>/a/../b\<close>,
  whose normal form is \<open>/b\<close>, the path that \<open>file:/a/../b\<close> gets.
\<close>

theorem parseurl_inserted_slash_not_normalized:
  "parseurl spec_collaborators [] ''file:a/../b'' calloc_urlhandle no_flags
     = Inr \<lparr>scheme = None, user = None, password = None, options = None,
            host = Some [], port = None, path = Some ''/a/../b'', query = None,
            fragment = None, portnum = 0\<rparr>
   \<and> remove_dot_segments ''/a/../b'' = ''/b''
   \<and> parseurl spec_collaborators [] ''file:/a/../b'' calloc_urlhandle no_flags
     = Inr \<lparr>scheme = None, user = None, password = None, options = None,
            host = Some [], port = None, path = Some ''/b'', query = None,
            fragment = None, portnum = 0\<rparr>"
  by code_simp

section \<open>Setting one part\<close>

text \<open>
  C9. Setting the port reads the number with \<open>strtol\<close> and does not look at what
  follows the digits: \<open>80abc\<close> is stored as the port string, with the number 80.
\<close>

theorem set_port_trailing_garbage:
  "curl_url_set spec_collaborators [] calloc_urlhandle CURLUPART_PORT ''80abc'' no_flags
     = Returns CURLURLE_OK (calloc_urlhandle\<lparr>port := Some ''80abc'', portnum := 80\<rparr>)"
  by code_simp

lemma strtol10_Nil: "strtol10 [] = (0, 0)"
  by (simp add: strtol10_def)

text \<open>
  C10, as the code has it. The empty string is never stored and the handle stays as it
  was. The code is out-of-memory for user, password, options, host, path, query and
  fragment; for the port it is bad-port-number, since the number is checked first; for
  the scheme it is unsupported-scheme when unregistered schemes are not accepted and
  the directory does not know the empty name, and out-of-memory otherwise.
\<close>

theorem set_empty_string:
  "curl_url_set X junk u CURLUPART_USER [] flags = Returns CURLURLE_OUT_OF_MEMORY u
   \<and> curl_url_set X junk u CURLUPART_PASSWORD [] flags = Returns CURLURLE_OUT_OF_MEMORY u
   \<and> curl_url_set X junk u CURLUPART_OPTIONS [] flags = Returns CURLURLE_OUT_OF_MEMORY u
   \<and> curl_url_set X junk u CURLUPART_HOST [] flags = Returns CURLURLE_OUT_OF_MEMORY u
   \<and> curl_url_set X junk u CURLUPART_PATH [] flags = Returns CURLURLE_OUT_OF_MEMORY u
   \<and> curl_url_set X junk u CURLUPART_QUERY [] flags = Returns CURLURLE_OUT_OF_MEMORY u
   \<and> curl_url_set X junk u CURLUPART_FRAGMENT [] flags = Returns CURLURLE_OUT_OF_MEMORY u
   \<and> curl_url_set X junk u CURLUPART_PORT [] flags = Returns CURLURLE_BAD_PORT_NUMBER u
   \<and> curl_url_set X junk u CURLUPART_SCHEME [] flags
       = Returns (if \<not> NON_SUPPORT_SCHEME flags \<and> Curl_builtin_scheme X [] = None
                  then CURLURLE_UNSUPPORTED_SCHEME else CURLURLE_OUT_OF_MEMORY) u"
  by (simp add: curl_url_set_def store_part_def nth_c_def strtol10_Nil)

text \<open>
  C10, as the claim has it, fails for the port: the empty string gives the
  bad-port-number code, not out-of-memory.
\<close>

theorem set_empty_port_counterexample:
  "curl_url_set spec_collaborators [] calloc_urlhandle CURLUPART_PORT [] no_flags
     = Returns CURLURLE_BAD_PORT_NUMBER calloc_urlhandle
   \<and> curl_url_set spec_collaborators [] calloc_urlhandle CURLUPART_PORT [] no_flags
     \<noteq> Returns CURLURLE_OUT_OF_MEMORY calloc_urlhandle"
  by code_simp

section \<open>Setting the whole URL\<close>

lemma parse_hostname_login_not_OK:
  "parse_hostname_login X u hn flags \<noteq> Inl CURLURLE_OK"
  by (auto simp: parse_hostname_login_def split: option.splits)

lemma parse_port_not_OK: "parse_port u hn \<noteq> Inl CURLURLE_OK"
  by (auto simp: parse_port_def Let_def split: option.splits prod.splits)

lemma parse_file_not_OK: "parse_file url \<noteq> Inl CURLURLE_OK"
  by (auto simp: parse_file_def Let_def split: list.splits sum.splits)

lemma parse_generic_not_OK: "parse_generic X url u flags \<noteq> Inl CURLURLE_OK"
  by (auto simp: parse_generic_def split: list.splits sum.splits)

lemma parseurl_not_OK: "parseurl X junk url u flags \<noteq> Inl CURLURLE_OK"
  using parse_hostname_login_not_OK parse_port_not_OK parse_file_not_OK parse_generic_not_OK
  by (auto simp: parseurl_def Let_def split: sum.splits prod.splits)

lemma curl_url_get_URL_not_OK: "curl_url_get X u CURLUPART_URL flags \<noteq> Inl CURLURLE_OK"
  by (simp add: curl_url_get_def Let_def split: option.splits)

lemma reparsed_string_not_OK: "reparsed_string X u part flags \<noteq> Inl CURLURLE_OK"
  using curl_url_get_URL_not_OK [of X u flags]
  by (auto simp: reparsed_string_def split: sum.splits)

lemma curl_url_set_URL_cases:
  "curl_url_set X junk u CURLUPART_URL part flags =
     (case reparsed_string X u part flags of
        Inl e \<Rightarrow> Returns e u
      | Inr t \<Rightarrow>
          (case parseurl X junk t calloc_urlhandle flags of
             Inl e \<Rightarrow> Returns e u
           | Inr h \<Rightarrow> if VERIFY_ONLY flags then Null_dereference else Returns CURLURLE_OK h))"
  using parseurl_not_OK [of X junk _ calloc_urlhandle flags]
  by (auto simp: curl_url_set_def reparsed_string_def replace_handle_def curl_url_def
      split: sum.splits CURLUcode.splits)

text \<open>
  C2 at the option that only verifies: \<open>curl_url\<close> then returns OK and stores no
  handle, and \<open>curl_url_set\<close>, having released the strings of its handle, copies
  through the null pointer.
\<close>

theorem set_url_verify_only:
  "curl_url_set spec_collaborators [] calloc_urlhandle CURLUPART_URL ''http://a/''
     (no_flags\<lparr>VERIFY_ONLY := True\<rparr>) = Null_dereference"
  by code_simp

text \<open>
  Whenever a composite set returns, it has either failed and left the handle as it was,
  or it returned OK and the handle is the one parsed from the string.
\<close>

theorem curl_url_set_URL_atomic_or_untouched:
  assumes "curl_url_set X junk u CURLUPART_URL part flags = Returns e u'"
  shows "(e \<noteq> CURLURLE_OK \<and> u' = u)
         \<or> (e = CURLURLE_OK
             \<and> (\<exists>t. reparsed_string X u part flags = Inr t
                     \<and> parseurl X junk t calloc_urlhandle flags = Inr u'))"
  using assms parseurl_not_OK [of X junk _ calloc_urlhandle flags]
    reparsed_string_not_OK [of X u part flags]
  by (auto simp: curl_url_set_URL_cases split: sum.splits if_splits)

text \<open>
  It does not return exactly when only a verification was asked for and the string
  parses.
\<close>

theorem curl_url_set_URL_null_dereference:
  "curl_url_set X junk u CURLUPART_URL part flags = Null_dereference
   \<longleftrightarrow> VERIFY_ONLY flags
       \<and> (\<exists>t h. reparsed_string X u part flags = Inr t
                 \<and> parseurl X junk t calloc_urlhandle flags = Inr h)"
  by (auto simp: curl_url_set_URL_cases split: sum.splits if_splits)

end
